theory Spec2Isabelle
  imports Complex_Main
begin

section \<open>Python values, exceptions and the library functions the server calls\<close>

text \<open>
  The server (\<^verbatim>\<open>beautiful_gradient_mcp/main.py\<close>) handles values decoded from JSON:
  the claims of a token, the arguments of a tool call, the body of a request. They are
  typed \<^verbatim>\<open>Dict[str, Any]\<close> in the source, so the model keeps them dynamically typed.
  A dictionary is an association list read with \<open>map_of\<close> (the first binding of a key
  is the dictionary's). A character is a code point below 256.
\<close>

datatype pyfloat = Finite rat | PosInf | NegInf | NaN

datatype pyval =
    PNone
  | PBool bool
  | PInt int
  | PFloat pyfloat
  | PStr string
  | PList "pyval list"
  | PDict "(string \<times> pyval) list"

text \<open>
  The exceptions of the model are all subclasses of Python's \<^verbatim>\<open>Exception\<close>, the class
  every \<^verbatim>\<open>except\<close> clause of the source catches. \<open>Raised m\<close> is an exception of
  a collaborator (the identity provider's client, the database, the file system) whose
  \<^verbatim>\<open>str\<close> is \<open>m\<close>.
\<close>

datatype exn =
    AttributeError
  | TypeError
  | IndexError
  | ValidationError
  | Raised string

text \<open>
  A text built by the source: a literal, or \<^verbatim>\<open>f"prefix{str(e)}"\<close> for a caught
  exception \<open>e\<close> (the interpreter's wording of \<^verbatim>\<open>str(e)\<close> is not modelled).
\<close>

datatype msg = Text string | ErrText string exn

text \<open>Truth value testing (\<^verbatim>\<open>if not x\<close>, \<^verbatim>\<open>x or y\<close>).\<close>

fun truthy :: "pyval \<Rightarrow> bool" where
  "truthy PNone = False"
| "truthy (PBool b) = b"
| "truthy (PInt i) = (i \<noteq> 0)"
| "truthy (PFloat (Finite r)) = (r \<noteq> 0)"
| "truthy (PFloat _) = True"
| "truthy (PStr s) = (s \<noteq> [])"
| "truthy (PList xs) = (xs \<noteq> [])"
| "truthy (PDict d) = (d \<noteq> [])"

text \<open>\<^verbatim>\<open>d.get(k, default)\<close> and \<^verbatim>\<open>k in d\<close> on a dictionary.\<close>

definition dict_get :: "(string \<times> pyval) list \<Rightarrow> string \<Rightarrow> pyval \<Rightarrow> pyval" where
  "dict_get d k dflt = (case map_of d k of Some v \<Rightarrow> v | None \<Rightarrow> dflt)"

definition dict_has :: "(string \<times> pyval) list \<Rightarrow> string \<Rightarrow> bool" where
  "dict_has d k = (map_of d k \<noteq> None)"

text \<open>\<^verbatim>\<open>len(d)\<close>: the number of keys.\<close>

definition dict_len :: "(string \<times> pyval) list \<Rightarrow> nat" where
  "dict_len d = length (remdups (map fst d))"

text \<open>
  \<^verbatim>\<open>str.split()\<close> without arguments: the maximal runs of characters that are not
  whitespace, in order. \<open>py_isspace\<close> lists the whitespace code points below 256.
\<close>

definition py_isspace :: "char \<Rightarrow> bool" where
  "py_isspace c = ((of_char c :: nat) \<in> {9, 10, 11, 12, 13, 28, 29, 30, 31, 32, 133, 160})"

fun split_from :: "string \<Rightarrow> string \<Rightarrow> string list" where
  "split_from cur [] = (if cur = [] then [] else [cur])"
| "split_from cur (c # cs) =
     (if py_isspace c
      then (if cur = [] then split_from [] cs else cur # split_from [] cs)
      else split_from (cur @ [c]) cs)"

definition str_split :: "string \<Rightarrow> string list" where
  "str_split s = split_from [] s"

text \<open>\<^verbatim>\<open>v.split()\<close> on a value: only a string has the method.\<close>

fun py_split :: "pyval \<Rightarrow> exn + string list" where
  "py_split (PStr s) = Inr (str_split s)"
| "py_split _ = Inl AttributeError"

text \<open>\<^verbatim>\<open>sep.join(xs)\<close>.\<close>

fun str_join :: "string \<Rightarrow> string list \<Rightarrow> string" where
  "str_join sep [] = []"
| "str_join sep [x] = x"
| "str_join sep (x # y # ys) = x @ sep @ str_join sep (y # ys)"

text \<open>The decimal text of a natural number, as an f-string prints \<^verbatim>\<open>len(...)\<close>.\<close>

definition digit_char :: "nat \<Rightarrow> char" where
  "digit_char d = ''0123456789'' ! d"

fun str_nat :: "nat \<Rightarrow> string" where
  "str_nat n = (if n < 10 then [digit_char n] else str_nat (n div 10) @ [digit_char (n mod 10)])"

declare str_nat.simps [simp del]

text \<open>
  Reading a decimal text back: the number a reader takes from the digits. It is the
  yardstick for \<open>str_nat\<close>, not part of the server.
\<close>

definition digit_value :: "char \<Rightarrow> nat" where
  "digit_value c = of_char c - 48"

definition decimal_value :: "string \<Rightarrow> nat" where
  "decimal_value s = foldl (\<lambda>acc c. 10 * acc + digit_value c) 0 s"

section \<open>The principal\<close>

text \<open>
  \<^verbatim>\<open>StytchAccessToken\<close> extends the library's \<^verbatim>\<open>AccessToken\<close> (fields \<^verbatim>\<open>token: str\<close>,
  \<^verbatim>\<open>client_id: str\<close>, \<^verbatim>\<open>scopes: list[str]\<close>) with \<^verbatim>\<open>subject: str\<close> and
  \<^verbatim>\<open>claims: Dict[str, Any]\<close>. Both are validated models: the constructor raises a
  validation error when a field declared \<^verbatim>\<open>str\<close> is given a value that is not a
  string. The optional fields of \<^verbatim>\<open>AccessToken\<close> that the server never sets are left out.
\<close>

record StytchAccessToken =
  token :: string
  client_id :: string
  scopes :: "string list"
  subject :: string
  claims :: "(string \<times> pyval) list"

fun StytchAccessToken_init ::
  "string \<Rightarrow> pyval \<Rightarrow> pyval \<Rightarrow> string list \<Rightarrow> (string \<times> pyval) list \<Rightarrow> exn + StytchAccessToken" where
  "StytchAccessToken_init tok (PStr c) (PStr s) scs cl =
     Inr \<lparr>token = tok, client_id = c, scopes = scs, subject = s, claims = cl\<rparr>"
| "StytchAccessToken_init tok _ _ scs cl = Inl ValidationError"

section \<open>Collaborators\<close>

text \<open>
  The modules \<^verbatim>\<open>auth\<close>, \<^verbatim>\<open>database\<close> and \<^verbatim>\<open>gradients\<close>, the request context, the
  clock and the file system are outside \<^verbatim>\<open>main.py\<close>. Each call into them is a field
  of the environment giving the call's outcome: the value returned, or the exception
  raised. A palette entry is a dictionary of which the server reads the key
  \<^verbatim>\<open>name\<close> only.
\<close>

record Profile =
  user_id :: string
  twitter_handle :: "string option"
  display_name :: "string option"
  avatar_url :: "string option"

record gradient =
  name :: string

record env =
  GRADIENTS :: "gradient list"
  MCP_SERVER_URL :: string
  verify_jwt_token :: "string \<Rightarrow> exn + pyval"
  get_access_token :: "exn + StytchAccessToken option"
  get_db :: "exn + unit"
  get_profile_by_user_id :: "string \<Rightarrow> exn + Profile option"
  db_close :: "exn option"
  utcnow_isoformat :: string
  read_widget_html :: "exn + string"
  verify_stytch_session_token :: "pyval \<Rightarrow> exn + pyval"
  extract_twitter_profile :: "pyval \<Rightarrow> exn + pyval"
  get_or_create_profile :: "pyval \<Rightarrow> exn + Profile option"

section \<open>Token verification\<close>

text \<open>
  The body of the \<^verbatim>\<open>try\<close> block of \<^verbatim>\<open>StytchVerifier.verify_token\<close>. A value that is not
  a dictionary has no \<^verbatim>\<open>get\<close>.
\<close>

definition verify_token_try :: "env \<Rightarrow> string \<Rightarrow> exn + StytchAccessToken option" where
  "verify_token_try e tok =
     (case verify_jwt_token e tok of
        Inl err \<Rightarrow> Inl err
      | Inr (PDict jwt_claims) \<Rightarrow>
          (let subj = dict_get jwt_claims ''sub'' PNone;
               cid = dict_get jwt_claims ''azp'' (dict_get jwt_claims ''client_id'' (PStr ''''))
           in if \<not> truthy subj then Inr None
              else
                (case (if dict_has jwt_claims ''scope''
                       then py_split (dict_get jwt_claims ''scope'' (PStr ''''))
                       else Inr []) of
                   Inl err \<Rightarrow> Inl err
                 | Inr scs \<Rightarrow>
                     (case StytchAccessToken_init tok cid subj scs jwt_claims of
                        Inl err \<Rightarrow> Inl err
                      | Inr t \<Rightarrow> Inr (Some t))))
      | Inr _ \<Rightarrow> Inl AttributeError)"

text \<open>\<^verbatim>\<open>except Exception: return None\<close>.\<close>

definition verify_token :: "env \<Rightarrow> string \<Rightarrow> StytchAccessToken option" where
  "verify_token e tok = (case verify_token_try e tok of Inl err \<Rightarrow> None | Inr r \<Rightarrow> r)"

section \<open>Tool results\<close>

text \<open>
  \<^verbatim>\<open>types.CallToolResult\<close>: the text items of \<^verbatim>\<open>content\<close>, the dictionary
  \<^verbatim>\<open>structuredContent\<close> (\<open>None\<close> when the handler gives none), the flag \<^verbatim>\<open>isError\<close>
  (false unless the handler sets it) and \<^verbatim>\<open>_meta\<close>. The request id is only logged
  and is left out, as are the log calls.
\<close>

record CallToolResult =
  content :: "msg list"
  structuredContent :: "(string \<times> pyval) list option"
  isError :: bool
  meta :: "(string \<times> pyval) list option"

text \<open>
  The database connection is followed by a trace: \<open>GetDb\<close> when \<^verbatim>\<open>get_db()\<close> has
  returned a connection, \<open>Close\<close> when \<^verbatim>\<open>db.close()\<close> is called on it.
\<close>

datatype db_event = GetDb | Close

section \<open>The tool \<^verbatim>\<open>get-my-profile\<close>\<close>

definition newline :: string where
  "newline = [CHR 0x0A]"

definition profile_text :: "StytchAccessToken \<Rightarrow> string" where
  "profile_text t =
     ''Profile Information:'' @ newline @
     ''- User ID: '' @ subject t @ newline @
     ''- Client ID: '' @ client_id t @ newline @
     ''- Scopes: '' @ (if scopes t \<noteq> [] then str_join '', '' (scopes t) else ''none'') @ newline @
     ''- JWT Claims: '' @ str_nat (dict_len (claims t)) @ '' claims present''"

definition profile_data :: "StytchAccessToken \<Rightarrow> (string \<times> pyval) list" where
  "profile_data t =
     [(''user_id'', PStr (subject t)),
      (''client_id'', PStr (client_id t)),
      (''scopes'', PList (map PStr (scopes t))),
      (''jwt_claims'', PDict (claims t))]"

text \<open>The whole body of the handler is inside \<^verbatim>\<open>try ... except Exception\<close>.\<close>

definition handle_get_my_profile :: "env \<Rightarrow> CallToolResult" where
  "handle_get_my_profile e =
     (case get_access_token e of
        Inl err \<Rightarrow>
          \<lparr>content = [ErrText ''Failed to retrieve profile: '' err],
           structuredContent = None, isError = True, meta = None\<rparr>
      | Inr None \<Rightarrow>
          \<lparr>content = [Text ''Authentication required. Please connect your account first.''],
           structuredContent = None, isError = True, meta = None\<rparr>
      | Inr (Some t) \<Rightarrow>
          \<lparr>content = [Text (profile_text t)],
           structuredContent = Some (profile_data t), isError = False, meta = None\<rparr>)"

section \<open>The tool \<^verbatim>\<open>create-gradient-tweet\<close>\<close>

text \<open>
  \<^verbatim>\<open>0 <= v\<close> and \<^verbatim>\<open>v < n\<close> for an integer on one side: numbers compare by value
  (\<^verbatim>\<open>True\<close> is 1, a NaN compares false), any other value raises \<^verbatim>\<open>TypeError\<close>.
\<close>

fun int_le :: "int \<Rightarrow> pyval \<Rightarrow> exn + bool" where
  "int_le i (PInt j) = Inr (i \<le> j)"
| "int_le i (PBool b) = Inr (i \<le> (if b then 1 else 0))"
| "int_le i (PFloat (Finite r)) = Inr (of_int i \<le> r)"
| "int_le i (PFloat PosInf) = Inr True"
| "int_le i (PFloat NegInf) = Inr False"
| "int_le i (PFloat NaN) = Inr False"
| "int_le i _ = Inl TypeError"

fun lt_int :: "pyval \<Rightarrow> int \<Rightarrow> exn + bool" where
  "lt_int (PInt j) n = Inr (j < n)"
| "lt_int (PBool b) n = Inr ((if b then 1 else 0) < n)"
| "lt_int (PFloat (Finite r)) n = Inr (r < of_int n)"
| "lt_int (PFloat PosInf) n = Inr False"
| "lt_int (PFloat NegInf) n = Inr True"
| "lt_int (PFloat NaN) n = Inr False"
| "lt_int _ n = Inl TypeError"

text \<open>The chained comparison \<^verbatim>\<open>0 <= v < n\<close>: the second test runs only if the first holds.\<close>

definition in_range :: "pyval \<Rightarrow> nat \<Rightarrow> exn + bool" where
  "in_range v n =
     (case int_le 0 v of
        Inl err \<Rightarrow> Inl err
      | Inr ok \<Rightarrow> if ok then lt_int v (int n) else Inr False)"

text \<open>
  \<^verbatim>\<open>xs[v]\<close>: an integer (or a Boolean) indexes, a negative one from the end; out of
  range raises \<^verbatim>\<open>IndexError\<close>, any other value \<^verbatim>\<open>TypeError\<close>.
\<close>

definition index_int :: "'a list \<Rightarrow> int \<Rightarrow> exn + 'a" where
  "index_int xs i =
     (let n = int (length xs); j = (if i < 0 then i + n else i)
      in if 0 \<le> j \<and> j < n then Inr (xs ! nat j) else Inl IndexError)"

fun list_index :: "'a list \<Rightarrow> pyval \<Rightarrow> exn + 'a" where
  "list_index xs (PInt i) = index_int xs i"
| "list_index xs (PBool b) = index_int xs (if b then 1 else 0)"
| "list_index xs _ = Inl TypeError"

text \<open>
  The first statements of \<^verbatim>\<open>handle_create_gradient_tweet\<close>, which no \<^verbatim>\<open>try\<close> encloses:
  reading the two arguments, the range check and the palette access. The call
  request's \<^verbatim>\<open>arguments\<close> may be absent (\<open>None\<close>), which has no \<^verbatim>\<open>get\<close>.
\<close>

definition select_gradient ::
  "gradient list \<Rightarrow> (string \<times> pyval) list option \<Rightarrow> exn + (pyval \<times> pyval \<times> gradient)" where
  "select_gradient gs arguments =
     (case arguments of
        None \<Rightarrow> Inl AttributeError
      | Some args \<Rightarrow>
          (let tweet_content = dict_get args ''tweetContent'' (PStr '''');
               gradient_index = dict_get args ''gradientIndex'' (PInt 0)
           in case in_range gradient_index (length gs) of
                Inl err \<Rightarrow> Inl err
              | Inr ok \<Rightarrow>
                  (let gradient_index = (if \<not> ok then PInt 0 else gradient_index)
                   in case list_index gs gradient_index of
                        Inl err \<Rightarrow> Inl err
                      | Inr g \<Rightarrow> Inr (tweet_content, gradient_index, g))))"

definition default_avatar :: string where
  "default_avatar =
     ''https://abs.twimg.com/sticky/default_profile_images/default_profile_400x400.png''"

definition default_twitter_data :: "(string \<times> pyval) list" where
  "default_twitter_data =
     [(''handle'', PStr ''twitter_user''),
      (''name'', PStr ''Twitter User''),
      (''avatar'', PStr default_avatar)]"

text \<open>\<^verbatim>\<open>field or default\<close> on a column that holds a string or \<^verbatim>\<open>None\<close>.\<close>

fun str_or :: "string option \<Rightarrow> string \<Rightarrow> string" where
  "str_or None d = d"
| "str_or (Some s) d = (if s = [] then d else s)"

definition profile_twitter_data :: "Profile \<Rightarrow> (string \<times> pyval) list" where
  "profile_twitter_data p =
     [(''handle'', PStr (str_or (twitter_handle p) ''twitter_user'')),
      (''name'', PStr (str_or (display_name p) ''Twitter User'')),
      (''avatar'', PStr (str_or (avatar_url p) default_avatar))]"

text \<open>
  The database lookup: \<^verbatim>\<open>profile = None\<close>, and for a principal with a subject,
  \<^verbatim>\<open>get_db()\<close>, then \<^verbatim>\<open>try: get_profile_by_user_id finally: db.close()\<close>. An exception
  raised by \<^verbatim>\<open>close\<close> in the \<^verbatim>\<open>finally\<close> clause replaces the outcome of the lookup.
\<close>

definition load_profile ::
  "env \<Rightarrow> StytchAccessToken option \<Rightarrow> (exn + Profile option) \<times> db_event list" where
  "load_profile e access_token =
     (case access_token of
        None \<Rightarrow> (Inr None, [])
      | Some t \<Rightarrow>
          if subject t = [] then (Inr None, [])
          else
            (case get_db e of
               Inl err \<Rightarrow> (Inl err, [])
             | Inr db \<Rightarrow>
                 (let looked_up = get_profile_by_user_id e (subject t);
                      tr = [GetDb] @ [Close]
                  in case db_close e of
                       Some err \<Rightarrow> (Inl err, tr)
                     | None \<Rightarrow> (looked_up, tr))))"

text \<open>The \<^verbatim>\<open>try\<close> block around the lookup, and its \<^verbatim>\<open>except Exception\<close>.\<close>

definition twitter_data_try :: "env \<Rightarrow> (exn + (string \<times> pyval) list) \<times> db_event list" where
  "twitter_data_try e =
     (case get_access_token e of
        Inl err \<Rightarrow> (Inl err, [])
      | Inr access_token \<Rightarrow>
          (case load_profile e access_token of
             (Inl err, tr) \<Rightarrow> (Inl err, tr)
           | (Inr (Some p), tr) \<Rightarrow> (Inr (profile_twitter_data p), tr)
           | (Inr None, tr) \<Rightarrow> (Inr default_twitter_data, tr)))"

definition get_twitter_data :: "env \<Rightarrow> (string \<times> pyval) list \<times> db_event list" where
  "get_twitter_data e =
     (case twitter_data_try e of
        (Inl err, tr) \<Rightarrow> (default_twitter_data, tr)
      | (Inr twitter_data, tr) \<Rightarrow> (twitter_data, tr))"

definition widget_unavailable :: string where
  "widget_unavailable = ''<p>Widget HTML not available</p>''"

definition load_widget_html :: "env \<Rightarrow> string" where
  "load_widget_html e =
     (case read_widget_html e of Inl err \<Rightarrow> widget_unavailable | Inr html \<Rightarrow> html)"

definition has_widget :: "string \<Rightarrow> bool" where
  "has_widget widget_html = (widget_html \<noteq> [] \<and> widget_html \<noteq> widget_unavailable)"

definition handle_create_gradient_tweet ::
  "env \<Rightarrow> (string \<times> pyval) list option \<Rightarrow> (exn + CallToolResult) \<times> db_event list" where
  "handle_create_gradient_tweet e arguments =
     (case select_gradient (GRADIENTS e) arguments of
        Inl err \<Rightarrow> (Inl err, [])
      | Inr (tweet_content, gradient_index, g) \<Rightarrow>
          (case get_twitter_data e of
             (twitter_data, tr) \<Rightarrow>
               (let structured_content =
                      [(''tweetContent'', tweet_content),
                       (''gradientIndex'', gradient_index),
                       (''gradientName'', PStr (name g)),
                       (''profile'', PDict twitter_data),
                       (''timestamp'', PStr (utcnow_isoformat e @ ''Z'')),
                       (''widgetUrl'', PStr (MCP_SERVER_URL e @ ''/widget/gradient-tweet''))];
                    text_response = ''Created gradient tweet with '' @ name g @ '' gradient!'';
                    widget_html = load_widget_html e
                in (Inr \<lparr>content =
                            [Text text_response] @
                            (if has_widget widget_html then [Text widget_html] else []),
                          structuredContent =
                            Some (structured_content @
                              [(''widget_html'',
                                if has_widget widget_html then PStr widget_html else PNone)]),
                          isError = False,
                          meta =
                            Some [(''openai/widgetAccessible'', PBool True),
                                  (''openai/resultCanProduceWidget'', PBool True),
                                  (''widget_type'', PStr ''html''),
                                  (''inline_render'', PBool True)]\<rparr>,
                    tr))))"

section \<open>The dispatcher\<close>

definition call_tool ::
  "env \<Rightarrow> string \<Rightarrow> (string \<times> pyval) list option \<Rightarrow> (exn + CallToolResult) \<times> db_event list" where
  "call_tool e tool arguments =
     (if tool = ''get-my-profile'' then (Inr (handle_get_my_profile e), [])
      else if tool = ''create-gradient-tweet'' then handle_create_gradient_tweet e arguments
      else
        (Inr \<lparr>content = [Text (''Unknown tool: '' @ tool)],
              structuredContent = None, isError = True, meta = None\<rparr>, []))"

section \<open>The endpoint \<^verbatim>\<open>POST /api/save-profile\<close>\<close>

text \<open>
  \<^verbatim>\<open>JSONResponse\<close>: the keys \<^verbatim>\<open>success\<close>, \<^verbatim>\<open>message\<close> and, when given,
  \<^verbatim>\<open>profile\<close> of the body, and the status code (200 unless the handler sets it).
\<close>

record JSONResponse =
  success :: bool
  message :: msg
  profile :: "(string \<times> pyval) list option"
  status_code :: nat

fun opt_str :: "string option \<Rightarrow> pyval" where
  "opt_str None = PNone"
| "opt_str (Some s) = PStr s"

text \<open>
  The \<^verbatim>\<open>try\<close> block of \<^verbatim>\<open>save_profile\<close>. Its argument is the outcome of
  \<^verbatim>\<open>json.loads(await request.body())\<close>. A \<^verbatim>\<open>return\<close> inside the inner \<^verbatim>\<open>try\<close> runs
  the \<^verbatim>\<open>finally\<close> clause first, and an exception raised there replaces the response.
\<close>

definition store_profile :: "env \<Rightarrow> pyval \<Rightarrow> exn + JSONResponse" where
  "store_profile e twitter_profile =
     (case get_or_create_profile e twitter_profile of
        Inl err \<Rightarrow> Inl err
      | Inr (Some p) \<Rightarrow>
          Inr \<lparr>success = True, message = Text ''Profile saved successfully'',
               profile =
                 Some [(''twitter_handle'', opt_str (twitter_handle p)),
                       (''display_name'', opt_str (display_name p))],
               status_code = 200\<rparr>
      | Inr None \<Rightarrow>
          Inr \<lparr>success = False, message = Text ''Failed to save profile'',
               profile = None, status_code = 500\<rparr>)"

definition save_profile_try ::
  "env \<Rightarrow> exn + pyval \<Rightarrow> (exn + JSONResponse) \<times> db_event list" where
  "save_profile_try e body =
     (case body of
        Inl err \<Rightarrow> (Inl err, [])
      | Inr (PDict data) \<Rightarrow>
          (let session_token = dict_get data ''session_token'' PNone
           in if \<not> truthy session_token
              then (Inr \<lparr>success = False, message = Text ''session_token required'',
                         profile = None, status_code = 400\<rparr>, [])
              else
                (case verify_stytch_session_token e session_token of
                   Inl err \<Rightarrow> (Inl err, [])
                 | Inr user_data \<Rightarrow>
                     (case extract_twitter_profile e user_data of
                        Inl err \<Rightarrow> (Inl err, [])
                      | Inr twitter_profile \<Rightarrow>
                          if \<not> truthy twitter_profile
                          then (Inr \<lparr>success = False, message = Text ''No Twitter profile found'',
                                     profile = None, status_code = 400\<rparr>, [])
                          else
                            (case get_db e of
                               Inl err \<Rightarrow> (Inl err, [])
                             | Inr db \<Rightarrow>
                                 (let saved = store_profile e twitter_profile;
                                      tr = [GetDb] @ [Close]
                                  in case db_close e of
                                       Some err \<Rightarrow> (Inl err, tr)
                                     | None \<Rightarrow> (saved, tr))))))
      | Inr _ \<Rightarrow> (Inl AttributeError, []))"

text \<open>\<^verbatim>\<open>except Exception as e\<close>: status 500 with \<^verbatim>\<open>f"Error: {str(e)}"\<close>.\<close>

definition save_profile :: "env \<Rightarrow> exn + pyval \<Rightarrow> JSONResponse \<times> db_event list" where
  "save_profile e body =
     (case save_profile_try e body of
        (Inl err, tr) \<Rightarrow>
          (\<lparr>success = False, message = ErrText ''Error: '' err,
            profile = None, status_code = 500\<rparr>, tr)
      | (Inr response, tr) \<Rightarrow> (response, tr))"

section \<open>A sample deployment\<close>

text \<open>
  A concrete principal, stored profile and environment, on which the theorems below are
  exercised: a palette of three entries, a verifier that accepts the token \<open>good\<close>, a
  store holding one profile whose display name is empty and whose avatar is missing.
\<close>

definition sample_claims :: "(string \<times> pyval) list" where
  "sample_claims =
     [(''sub'', PStr ''user-1''), (''azp'', PStr ''client-1''),
      (''client_id'', PStr ''client-2''), (''scope'', PStr ''openid  profile''),
      (''exp'', PInt 1900000000)]"

definition sample_token :: StytchAccessToken where
  "sample_token =
     \<lparr>token = ''good'', client_id = ''client-1'', scopes = [''openid'', ''profile''],
      subject = ''user-1'', claims = sample_claims\<rparr>"

definition sample_profile :: Profile where
  "sample_profile =
     \<lparr>user_id = ''user-1'', twitter_handle = Some ''alice'',
      display_name = Some '''', avatar_url = None\<rparr>"

definition sample_env :: env where
  "sample_env =
     \<lparr>GRADIENTS = [\<lparr>name = ''Sunset''\<rparr>, \<lparr>name = ''Ocean''\<rparr>, \<lparr>name = ''Forest''\<rparr>],
      MCP_SERVER_URL = ''http://localhost:8000'',
      verify_jwt_token =
        (\<lambda>tok. if tok = ''good'' then Inr (PDict sample_claims)
               else Inl (Raised ''invalid token'')),
      get_access_token = Inr (Some sample_token),
      get_db = Inr (),
      get_profile_by_user_id =
        (\<lambda>uid. if uid = ''user-1'' then Inr (Some sample_profile) else Inr None),
      db_close = None,
      utcnow_isoformat = ''2025-01-01T12:00:00'',
      read_widget_html = Inr ''<html></html>'',
      verify_stytch_session_token =
        (\<lambda>tok. if tok = PStr ''session-1'' then Inr (PDict [(''user_id'', PStr ''user-1'')])
               else Inl (Raised ''invalid session'')),
      extract_twitter_profile =
        (\<lambda>user_data. Inr (PDict [(''user_id'', PStr ''user-1''), (''handle'', PStr ''alice'')])),
      get_or_create_profile = (\<lambda>twitter_profile. Inr (Some sample_profile))\<rparr>"

section \<open>Splitting on whitespace\<close>





section \<open>Properties of token verification\<close>

lemma StytchAccessToken_init_Inr:
  "StytchAccessToken_init tok c s scs cl = Inr t \<Longrightarrow>
   \<exists>c' s'. c = PStr c' \<and> s = PStr s' \<and>
     t = \<lparr>token = tok, client_id = c', scopes = scs, subject = s', claims = cl\<rparr>"
  by (cases "(tok, c, s, scs, cl)" rule: StytchAccessToken_init.cases) auto

text \<open>What a returned principal says about the verified claims.\<close>

lemma verify_token_Some:
  assumes "verify_token e tok = Some p"
  shows "\<exists>d c s scs. verify_jwt_token e tok = Inr (PDict d)
     \<and> dict_get d ''azp'' (dict_get d ''client_id'' (PStr '''')) = PStr c
     \<and> dict_get d ''sub'' PNone = PStr s \<and> s \<noteq> []
     \<and> (if dict_has d ''scope'' then py_split (dict_get d ''scope'' (PStr '''')) else Inr [])
         = Inr scs
     \<and> p = \<lparr>token = tok, client_id = c, scopes = scs, subject = s, claims = d\<rparr>"
  using assms
  unfolding verify_token_def verify_token_try_def Let_def
  by (auto split: sum.splits pyval.splits if_splits dest!: StytchAccessToken_init_Inr)

text \<open>
  C1. For every token, \<open>verify_token\<close> returns \<open>None\<close> or a principal whose subject is
  not empty; it returns a value in every case (each exception of the body is caught),
  and claims without \<open>sub\<close> give \<open>None\<close>.
\<close>

theorem verify_token_subject_nonempty:
  "(verify_token e tok = None \<or> (\<exists>p. verify_token e tok = Some p \<and> subject p \<noteq> []))
   \<and> (\<forall>d. verify_jwt_token e tok = Inr (PDict d) \<and> map_of d ''sub'' = None
          \<longrightarrow> verify_token e tok = None)"
proof
  show "verify_token e tok = None \<or> (\<exists>p. verify_token e tok = Some p \<and> subject p \<noteq> [])"
  proof (cases "verify_token e tok")
    case None
    then show ?thesis by simp
  next
    case (Some p)
    from verify_token_Some [OF Some] have "subject p \<noteq> []" by auto
    with Some show ?thesis by simp
  qed
next
  show "\<forall>d. verify_jwt_token e tok = Inr (PDict d) \<and> map_of d ''sub'' = None
          \<longrightarrow> verify_token e tok = None"
    by (simp add: verify_token_def verify_token_try_def dict_get_def)
qed

theorem verify_token_subject_nonempty_witness:
  "verify_token sample_env ''good'' = Some sample_token \<and> subject sample_token \<noteq> []
   \<and> verify_jwt_token (sample_env\<lparr>verify_jwt_token := \<lambda>tok. Inr (PDict [(''azp'', PStr ''client-1'')])\<rparr>) ''good''
       = Inr (PDict [(''azp'', PStr ''client-1'')])
   \<and> map_of [(''azp'', PStr ''client-1'')] ''sub'' = None
   \<and> verify_token (sample_env\<lparr>verify_jwt_token := \<lambda>tok. Inr (PDict [(''azp'', PStr ''client-1'')])\<rparr>) ''good'' = None"
  using verify_token_subject_nonempty [of "sample_env\<lparr>verify_jwt_token := \<lambda>tok. Inr (PDict [(''azp'', PStr ''client-1'')])\<rparr>" "''good''"]
    verify_token_subject_nonempty [of sample_env "''good''"]
  by (simp add: sample_env_def sample_token_def sample_claims_def verify_token_def
      verify_token_try_def dict_get_def dict_has_def str_split_def py_isspace_def)





section \<open>Properties of the gradient selection\<close>

lemma in_range_int: "in_range (PInt i) n = Inr (0 \<le> i \<and> i < int n)"
  by (simp add: in_range_def)

lemma index_int_in_range:
  "0 \<le> i \<Longrightarrow> i < int (length xs) \<Longrightarrow> index_int xs i = Inr (xs ! nat i)"
  by (simp add: index_int_def)

lemma index_int_zero: "xs \<noteq> [] \<Longrightarrow> index_int xs 0 = Inr (xs ! 0)"
  by (simp add: index_int_def)

lemma select_gradient_absent:
  assumes "gs \<noteq> []" "map_of args ''gradientIndex'' = None"
  shows "select_gradient gs (Some args) =
           Inr (dict_get args ''tweetContent'' (PStr ''''), PInt 0, gs ! 0)"
  using assms
  by (simp add: select_gradient_def dict_get_def in_range_int index_int_zero)

lemma select_gradient_PInt:
  assumes "gs \<noteq> []" "map_of args ''gradientIndex'' = Some (PInt i)"
  shows "select_gradient gs (Some args) =
           (if 0 \<le> i \<and> i < int (length gs)
            then Inr (dict_get args ''tweetContent'' (PStr ''''), PInt i, gs ! nat i)
            else Inr (dict_get args ''tweetContent'' (PStr ''''), PInt 0, gs ! 0))"
  using assms
  by (simp add: select_gradient_def dict_get_def in_range_int index_int_zero index_int_in_range)

text \<open>Once the gradient is selected the handler returns a result, never an exception.\<close>

lemma handle_create_ok:
  assumes "select_gradient (GRADIENTS e) arguments = Inr (tc, gi, g)"
  shows "\<exists>r sc. fst (handle_create_gradient_tweet e arguments) = Inr r \<and> \<not> isError r
     \<and> structuredContent r = Some sc
     \<and> map_of sc ''tweetContent'' = Some tc
     \<and> map_of sc ''gradientIndex'' = Some gi
     \<and> map_of sc ''gradientName'' = Some (PStr (name g))
     \<and> map_of sc ''profile'' = Some (PDict (fst (get_twitter_data e)))
     \<and> hd (content r) = Text (''Created gradient tweet with '' @ name g @ '' gradient!'')"
  using assms
  by (simp add: handle_create_gradient_tweet_def Let_def split: prod.splits)

lemma handle_create_trace:
  "snd (handle_create_gradient_tweet e arguments) =
     (case select_gradient (GRADIENTS e) arguments of
        Inl err \<Rightarrow> [] | Inr sel \<Rightarrow> snd (get_twitter_data e))"
  by (simp add: handle_create_gradient_tweet_def Let_def split: prod.splits sum.splits)

lemma handle_create_Inr:
  assumes "fst (handle_create_gradient_tweet e arguments) = Inr r"
  shows "\<exists>tc gi g. select_gradient (GRADIENTS e) arguments = Inr (tc, gi, g)"
  using assms
  by (auto simp: handle_create_gradient_tweet_def split: sum.splits)

text \<open>
  A call of \<open>create-gradient-tweet\<close> with an arguments object whose \<open>gradientIndex\<close> is
  absent or an integer returns a result that is not flagged as an error (the palette not being empty): the
  result's index is the given one when it lies in \<open>[0, length GRADIENTS)\<close> and 0
  otherwise, also when the argument is absent, and the result names the palette entry
  at that index.
\<close>

theorem gradient_index_clamped:
  assumes "GRADIENTS e \<noteq> []"
    and "map_of args ''gradientIndex'' = None \<or> map_of args ''gradientIndex'' = Some (PInt i)"
  shows "\<exists>r sc k. fst (call_tool e ''create-gradient-tweet'' (Some args)) = Inr r
     \<and> \<not> isError r \<and> structuredContent r = Some sc
     \<and> map_of sc ''gradientIndex'' = Some (PInt k)
     \<and> map_of sc ''gradientName'' = Some (PStr (name (GRADIENTS e ! nat k)))
     \<and> k = (if map_of args ''gradientIndex'' = Some (PInt i)
                \<and> 0 \<le> i \<and> i < int (length (GRADIENTS e)) then i else 0)"
proof -
  let ?k = "if map_of args ''gradientIndex'' = Some (PInt i)
                \<and> 0 \<le> i \<and> i < int (length (GRADIENTS e)) then i else 0"
  have "select_gradient (GRADIENTS e) (Some args) =
          Inr (dict_get args ''tweetContent'' (PStr ''''), PInt ?k, GRADIENTS e ! nat ?k)"
    using assms
    by (auto simp: select_gradient_absent select_gradient_PInt)
  from handle_create_ok [OF this] show ?thesis
    by (auto simp: call_tool_def)
qed

theorem gradient_index_clamped_witness:
  "GRADIENTS sample_env \<noteq> []
   \<and> (\<exists>r sc. fst (call_tool sample_env ''create-gradient-tweet''
                  (Some [(''tweetContent'', PStr ''hi''), (''gradientIndex'', PInt 999)])) = Inr r
        \<and> \<not> isError r \<and> structuredContent r = Some sc
        \<and> map_of sc ''gradientIndex'' = Some (PInt 0)
        \<and> map_of sc ''gradientName'' = Some (PStr ''Sunset''))
   \<and> (\<exists>r sc. fst (call_tool sample_env ''create-gradient-tweet''
                  (Some [(''tweetContent'', PStr ''hi''), (''gradientIndex'', PInt (- 1))])) = Inr r
        \<and> \<not> isError r \<and> structuredContent r = Some sc
        \<and> map_of sc ''gradientIndex'' = Some (PInt 0)
        \<and> map_of sc ''gradientName'' = Some (PStr ''Sunset''))
   \<and> (\<exists>r sc. fst (call_tool sample_env ''create-gradient-tweet''
                  (Some [(''tweetContent'', PStr ''hi'')])) = Inr r
        \<and> \<not> isError r \<and> structuredContent r = Some sc
        \<and> map_of sc ''gradientIndex'' = Some (PInt 0)
        \<and> map_of sc ''gradientName'' = Some (PStr ''Sunset''))
   \<and> (\<exists>r sc. fst (call_tool sample_env ''create-gradient-tweet''
                  (Some [(''tweetContent'', PStr ''hi''), (''gradientIndex'', PInt 2)])) = Inr r
        \<and> \<not> isError r \<and> structuredContent r = Some sc
        \<and> map_of sc ''gradientIndex'' = Some (PInt 2)
        \<and> map_of sc ''gradientName'' = Some (PStr ''Forest''))"
  using
    gradient_index_clamped [of sample_env "[(''tweetContent'', PStr ''hi''), (''gradientIndex'', PInt 999)]" 999]
    gradient_index_clamped [of sample_env "[(''tweetContent'', PStr ''hi''), (''gradientIndex'', PInt (- 1))]" "- 1"]
    gradient_index_clamped [of sample_env "[(''tweetContent'', PStr ''hi'')]" 0]
    gradient_index_clamped [of sample_env "[(''tweetContent'', PStr ''hi''), (''gradientIndex'', PInt 2)]" 2]
  by (simp add: sample_env_def)

text \<open>
  C3. The call errors on an absent index and on an index in range: without an
  arguments object the handler raises \<open>AttributeError\<close> and with the index \<open>null\<close> it
  raises \<open>TypeError\<close>, in every environment; with the index \<open>2.0\<close>, in range for the
  sample palette of three entries, it raises \<open>TypeError\<close> at the palette access.
\<close>

theorem create_gradient_tweet_index_raises:
  "call_tool e ''create-gradient-tweet'' None = (Inl AttributeError, [])
   \<and> call_tool e ''create-gradient-tweet''
        (Some [(''tweetContent'', PStr ''hi''), (''gradientIndex'', PNone)])
      = (Inl TypeError, [])
   \<and> length (GRADIENTS sample_env) = 3
   \<and> in_range (PFloat (Finite 2)) (length (GRADIENTS sample_env)) = Inr True
   \<and> call_tool sample_env ''create-gradient-tweet''
        (Some [(''tweetContent'', PStr ''hi''), (''gradientIndex'', PFloat (Finite 2))])
      = (Inl TypeError, [])"
  by (simp add: call_tool_def handle_create_gradient_tweet_def select_gradient_def dict_get_def
      in_range_def sample_env_def)

section \<open>Properties of the profile lookup\<close>

lemma get_twitter_data_default:
  assumes "get_access_token e = Inr None
     \<or> (\<exists>err. get_access_token e = Inl err)
     \<or> (\<exists>t. get_access_token e = Inr (Some t)
           \<and> (get_profile_by_user_id e (subject t) = Inr None
               \<or> (\<exists>err. get_profile_by_user_id e (subject t) = Inl err)
               \<or> (\<exists>err. get_db e = Inl err)
               \<or> (\<exists>err. db_close e = Some err)))"
  shows "fst (get_twitter_data e) = default_twitter_data"
  using assms
  by (auto simp: get_twitter_data_def twitter_data_try_def load_profile_def Let_def
      split: sum.splits option.splits prod.splits if_splits)

lemma str_or_nonempty: "d \<noteq> [] \<Longrightarrow> str_or x d \<noteq> []"
  by (cases x) auto

lemma get_twitter_data_shape:
  "\<exists>h n a. fst (get_twitter_data e) = [(''handle'', PStr h), (''name'', PStr n), (''avatar'', PStr a)]
     \<and> h \<noteq> [] \<and> n \<noteq> [] \<and> a \<noteq> []"
  by (auto simp: get_twitter_data_def twitter_data_try_def default_twitter_data_def
      profile_twitter_data_def default_avatar_def str_or_nonempty
      split: sum.splits option.splits prod.splits)

lemma get_twitter_data_found:
  assumes "get_access_token e = Inr (Some t)" "subject t \<noteq> []" "get_db e = Inr ()"
    "get_profile_by_user_id e (subject t) = Inr (Some p)" "db_close e = None"
  shows "fst (get_twitter_data e) = profile_twitter_data p"
  using assms
  by (simp add: get_twitter_data_def twitter_data_try_def load_profile_def)

text \<open>
  C4. When the profile lookup of \<open>create-gradient-tweet\<close> fails (no principal, the
  context raising, no stored profile, or an exception of \<open>get_db\<close>, of the lookup or
  of \<open>close\<close>), a call whose gradient selection went through returns a result that is
  not flagged as an error, announces the tweet, and carries the default identity with
  the handle \<open>twitter_user\<close>.
\<close>

theorem lookup_failure_default_identity:
  assumes "select_gradient (GRADIENTS e) arguments = Inr (tc, gi, g)"
    and "get_access_token e = Inr None
     \<or> (\<exists>err. get_access_token e = Inl err)
     \<or> (\<exists>t. get_access_token e = Inr (Some t)
           \<and> (get_profile_by_user_id e (subject t) = Inr None
               \<or> (\<exists>err. get_profile_by_user_id e (subject t) = Inl err)
               \<or> (\<exists>err. get_db e = Inl err)
               \<or> (\<exists>err. db_close e = Some err)))"
  shows "\<exists>r sc. fst (call_tool e ''create-gradient-tweet'' arguments) = Inr r
     \<and> \<not> isError r
     \<and> hd (content r) = Text (''Created gradient tweet with '' @ name g @ '' gradient!'')
     \<and> structuredContent r = Some sc
     \<and> map_of sc ''profile'' =
         Some (PDict [(''handle'', PStr ''twitter_user''), (''name'', PStr ''Twitter User''),
                      (''avatar'', PStr default_avatar)])"
  using handle_create_ok [OF assms(1)] get_twitter_data_default [OF assms(2)]
  by (auto simp: call_tool_def default_twitter_data_def)

theorem lookup_failure_default_identity_witness:
  "select_gradient (GRADIENTS sample_env) (Some [(''tweetContent'', PStr ''hi'')])
     = Inr (PStr ''hi'', PInt 0, \<lparr>name = ''Sunset''\<rparr>)
   \<and> get_access_token (sample_env\<lparr>get_access_token := Inr None\<rparr>) = Inr None
   \<and> (\<exists>r sc. fst (call_tool (sample_env\<lparr>get_access_token := Inr None\<rparr>)
                   ''create-gradient-tweet'' (Some [(''tweetContent'', PStr ''hi'')])) = Inr r
         \<and> \<not> isError r
         \<and> hd (content r) = Text ''Created gradient tweet with Sunset gradient!''
         \<and> structuredContent r = Some sc
         \<and> map_of sc ''profile'' =
             Some (PDict [(''handle'', PStr ''twitter_user''), (''name'', PStr ''Twitter User''),
                          (''avatar'', PStr default_avatar)]))
   \<and> (\<exists>r sc. fst (call_tool (sample_env\<lparr>get_profile_by_user_id := \<lambda>uid. Inl (Raised ''database is down'')\<rparr>)
                   ''create-gradient-tweet'' (Some [(''tweetContent'', PStr ''hi'')])) = Inr r
         \<and> \<not> isError r
         \<and> hd (content r) = Text ''Created gradient tweet with Sunset gradient!''
         \<and> structuredContent r = Some sc
         \<and> map_of sc ''profile'' =
             Some (PDict [(''handle'', PStr ''twitter_user''), (''name'', PStr ''Twitter User''),
                          (''avatar'', PStr default_avatar)]))
   \<and> (\<exists>r sc. fst (call_tool (sample_env\<lparr>get_profile_by_user_id := \<lambda>uid. Inr None\<rparr>)
                   ''create-gradient-tweet'' (Some [(''tweetContent'', PStr ''hi'')])) = Inr r
         \<and> \<not> isError r
         \<and> hd (content r) = Text ''Created gradient tweet with Sunset gradient!''
         \<and> structuredContent r = Some sc
         \<and> map_of sc ''profile'' =
             Some (PDict [(''handle'', PStr ''twitter_user''), (''name'', PStr ''Twitter User''),
                          (''avatar'', PStr default_avatar)]))"
  using
    lookup_failure_default_identity [of "sample_env\<lparr>get_access_token := Inr None\<rparr>"
      "Some [(''tweetContent'', PStr ''hi'')]" "PStr ''hi''" "PInt 0" "\<lparr>name = ''Sunset''\<rparr>"]
    lookup_failure_default_identity [of "sample_env\<lparr>get_profile_by_user_id := \<lambda>uid. Inl (Raised ''database is down'')\<rparr>"
      "Some [(''tweetContent'', PStr ''hi'')]" "PStr ''hi''" "PInt 0" "\<lparr>name = ''Sunset''\<rparr>"]
    lookup_failure_default_identity [of "sample_env\<lparr>get_profile_by_user_id := \<lambda>uid. Inr None\<rparr>"
      "Some [(''tweetContent'', PStr ''hi'')]" "PStr ''hi''" "PInt 0" "\<lparr>name = ''Sunset''\<rparr>"]
  by (simp add: sample_env_def sample_token_def select_gradient_def dict_get_def in_range_def
      index_int_def)

text \<open>
  C10. In every result of \<open>create-gradient-tweet\<close> the identity has a handle, a name
  and an avatar that are not empty; when a stored profile was found, each of the three
  is the profile's field unless that field is missing or empty, in which case it alone
  is replaced by its default.
\<close>

theorem identity_fields_never_empty:
  assumes "fst (call_tool e ''create-gradient-tweet'' arguments) = Inr r"
  shows "\<exists>sc h n a. structuredContent r = Some sc
     \<and> map_of sc ''profile'' =
         Some (PDict [(''handle'', PStr h), (''name'', PStr n), (''avatar'', PStr a)])
     \<and> h \<noteq> [] \<and> n \<noteq> [] \<and> a \<noteq> []
     \<and> (\<forall>t p. get_access_token e = Inr (Some t) \<and> subject t \<noteq> [] \<and> get_db e = Inr ()
             \<and> get_profile_by_user_id e (subject t) = Inr (Some p) \<and> db_close e = None
           \<longrightarrow> h = (case twitter_handle p of
                      None \<Rightarrow> ''twitter_user''
                    | Some s \<Rightarrow> if s = [] then ''twitter_user'' else s)
             \<and> n = (case display_name p of
                      None \<Rightarrow> ''Twitter User''
                    | Some s \<Rightarrow> if s = [] then ''Twitter User'' else s)
             \<and> a = (case avatar_url p of
                      None \<Rightarrow> default_avatar
                    | Some s \<Rightarrow> if s = [] then default_avatar else s))"
proof -
  from assms have r: "fst (handle_create_gradient_tweet e arguments) = Inr r"
    by (simp add: call_tool_def)
  from handle_create_Inr [OF r] obtain tc gi g
    where sel: "select_gradient (GRADIENTS e) arguments = Inr (tc, gi, g)" by blast
  from handle_create_ok [OF sel] r obtain sc
    where sc: "structuredContent r = Some sc"
      "map_of sc ''profile'' = Some (PDict (fst (get_twitter_data e)))" by auto
  from get_twitter_data_shape [of e] obtain h n a
    where td: "fst (get_twitter_data e) = [(''handle'', PStr h), (''name'', PStr n), (''avatar'', PStr a)]"
      and ne: "h \<noteq> []" "n \<noteq> []" "a \<noteq> []" by blast
  have found: "\<forall>t p. get_access_token e = Inr (Some t) \<and> subject t \<noteq> [] \<and> get_db e = Inr ()
             \<and> get_profile_by_user_id e (subject t) = Inr (Some p) \<and> db_close e = None
           \<longrightarrow> h = (case twitter_handle p of
                      None \<Rightarrow> ''twitter_user''
                    | Some s \<Rightarrow> if s = [] then ''twitter_user'' else s)
             \<and> n = (case display_name p of
                      None \<Rightarrow> ''Twitter User''
                    | Some s \<Rightarrow> if s = [] then ''Twitter User'' else s)
             \<and> a = (case avatar_url p of
                      None \<Rightarrow> default_avatar
                    | Some s \<Rightarrow> if s = [] then default_avatar else s)"
  proof (intro allI impI)
    fix t p
    assume "get_access_token e = Inr (Some t) \<and> subject t \<noteq> [] \<and> get_db e = Inr ()
             \<and> get_profile_by_user_id e (subject t) = Inr (Some p) \<and> db_close e = None"
    then have "fst (get_twitter_data e) = profile_twitter_data p"
      by (simp add: get_twitter_data_found)
    with td show "h = (case twitter_handle p of
                      None \<Rightarrow> ''twitter_user''
                    | Some s \<Rightarrow> if s = [] then ''twitter_user'' else s)
             \<and> n = (case display_name p of
                      None \<Rightarrow> ''Twitter User''
                    | Some s \<Rightarrow> if s = [] then ''Twitter User'' else s)
             \<and> a = (case avatar_url p of
                      None \<Rightarrow> default_avatar
                    | Some s \<Rightarrow> if s = [] then default_avatar else s)"
      by (auto simp: profile_twitter_data_def split: option.splits)
  qed
  show ?thesis
  proof (intro exI conjI)
    show "structuredContent r = Some sc" by (rule sc(1))
    show "map_of sc ''profile'' =
         Some (PDict [(''handle'', PStr h), (''name'', PStr n), (''avatar'', PStr a)])"
      using sc(2) td by simp
    show "h \<noteq> []" "n \<noteq> []" "a \<noteq> []" by (rule ne)+
    show "\<forall>t p. get_access_token e = Inr (Some t) \<and> subject t \<noteq> [] \<and> get_db e = Inr ()
             \<and> get_profile_by_user_id e (subject t) = Inr (Some p) \<and> db_close e = None
           \<longrightarrow> h = (case twitter_handle p of
                      None \<Rightarrow> ''twitter_user''
                    | Some s \<Rightarrow> if s = [] then ''twitter_user'' else s)
             \<and> n = (case display_name p of
                      None \<Rightarrow> ''Twitter User''
                    | Some s \<Rightarrow> if s = [] then ''Twitter User'' else s)
             \<and> a = (case avatar_url p of
                      None \<Rightarrow> default_avatar
                    | Some s \<Rightarrow> if s = [] then default_avatar else s)"
      by (rule found)
  qed
qed

theorem identity_fields_never_empty_witness:
  "(\<exists>r. fst (call_tool sample_env ''create-gradient-tweet'' (Some [(''tweetContent'', PStr ''hi'')]))
          = Inr r
        \<and> (\<exists>sc. structuredContent r = Some sc
              \<and> map_of sc ''profile'' =
                  Some (PDict [(''handle'', PStr ''alice''), (''name'', PStr ''Twitter User''),
                               (''avatar'', PStr default_avatar)])))
   \<and> get_access_token sample_env = Inr (Some sample_token)
   \<and> subject sample_token \<noteq> []
   \<and> get_db sample_env = Inr ()
   \<and> get_profile_by_user_id sample_env (subject sample_token) = Inr (Some sample_profile)
   \<and> db_close sample_env = None
   \<and> twitter_handle sample_profile = Some ''alice''
   \<and> display_name sample_profile = Some []
   \<and> avatar_url sample_profile = None"
proof -
  have sel: "select_gradient (GRADIENTS sample_env) (Some [(''tweetContent'', PStr ''hi'')])
      = Inr (PStr ''hi'', PInt 0, \<lparr>name = ''Sunset''\<rparr>)"
    by (simp add: sample_env_def select_gradient_def dict_get_def in_range_def index_int_def)
  from handle_create_ok [OF sel] obtain r
    where "fst (handle_create_gradient_tweet sample_env (Some [(''tweetContent'', PStr ''hi'')])) = Inr r"
    by blast
  then have r: "fst (call_tool sample_env ''create-gradient-tweet''
      (Some [(''tweetContent'', PStr ''hi'')])) = Inr r"
    by (simp add: call_tool_def)
  have env: "get_access_token sample_env = Inr (Some sample_token)"
    "subject sample_token \<noteq> []" "get_db sample_env = Inr ()"
    "get_profile_by_user_id sample_env (subject sample_token) = Inr (Some sample_profile)"
    "db_close sample_env = None"
    by (simp_all add: sample_env_def sample_token_def)
  have prof: "twitter_handle sample_profile = Some ''alice''"
    "display_name sample_profile = Some []" "avatar_url sample_profile = None"
    by (simp_all add: sample_profile_def)
  from identity_fields_never_empty [OF r] obtain sc h n a
    where sc: "structuredContent r = Some sc"
      "map_of sc ''profile'' =
         Some (PDict [(''handle'', PStr h), (''name'', PStr n), (''avatar'', PStr a)])"
      and found: "\<forall>t p. get_access_token sample_env = Inr (Some t) \<and> subject t \<noteq> []
             \<and> get_db sample_env = Inr ()
             \<and> get_profile_by_user_id sample_env (subject t) = Inr (Some p)
             \<and> db_close sample_env = None
           \<longrightarrow> h = (case twitter_handle p of
                      None \<Rightarrow> ''twitter_user''
                    | Some s \<Rightarrow> if s = [] then ''twitter_user'' else s)
             \<and> n = (case display_name p of
                      None \<Rightarrow> ''Twitter User''
                    | Some s \<Rightarrow> if s = [] then ''Twitter User'' else s)
             \<and> a = (case avatar_url p of
                      None \<Rightarrow> default_avatar
                    | Some s \<Rightarrow> if s = [] then default_avatar else s)"
    by blast
  from found [rule_format, of sample_token sample_profile] env prof
  have "h = ''alice''" "n = ''Twitter User''" "a = default_avatar" by simp_all
  with sc r env prof show ?thesis by simp
qed

section \<open>Properties of \<^verbatim>\<open>get-my-profile\<close>\<close>

text \<open>
  What the summary's building blocks compute: \<open>dict_len\<close> is the number of keys of the
  dictionary, \<open>str_nat\<close> writes a number in decimal digits that read back as the number,
  and \<open>str_join\<close> puts the separator before every element but the first.
\<close>

lemma dict_len_card: "dict_len d = card (fst ` set d)"
  by (simp add: dict_len_def length_remdups_card_conv)

lemma dict_len_dom: "dict_len d = card (dom (map_of d))"
  by (simp add: dict_len_card dom_map_of_conv_image_fst)

lemma digit_char_cases:
  assumes "d < 10"
  shows "digit_value (digit_char d) = d \<and> digit_char d \<in> set ''0123456789''"
proof -
  from assms have "d = 0 \<or> d = 1 \<or> d = 2 \<or> d = 3 \<or> d = 4 \<or> d = 5 \<or> d = 6 \<or> d = 7
     \<or> d = 8 \<or> d = 9" by arith
  then show ?thesis
    by (elim disjE) (simp_all add: digit_char_def digit_value_def)
qed

lemma decimal_value_snoc:
  "decimal_value (s @ [c]) = 10 * decimal_value s + digit_value c"
  by (simp add: decimal_value_def)

lemma decimal_value_str_nat: "decimal_value (str_nat n) = n"
proof (induction n rule: str_nat.induct)
  case (1 n)
  show ?case
  proof (cases "n < 10")
    case True
    then show ?thesis
      using digit_char_cases [of n]
      by (simp add: str_nat.simps [of n] decimal_value_def)
  next
    case False
    have "n mod 10 < 10" by simp
    from digit_char_cases [OF this] 1 [OF False] False show ?thesis
      by (simp add: str_nat.simps [of n] decimal_value_snoc)
  qed
qed

lemma str_nat_digits: "str_nat n \<noteq> [] \<and> set (str_nat n) \<subseteq> set ''0123456789''"
proof (induction n rule: str_nat.induct)
  case (1 n)
  show ?case
  proof (cases "n < 10")
    case True
    then show ?thesis
      using digit_char_cases [of n] by (simp add: str_nat.simps [of n])
  next
    case False
    have "n mod 10 < 10" by simp
    from digit_char_cases [OF this] 1 [OF False] False show ?thesis
      by (simp add: str_nat.simps [of n])
  qed
qed

lemma str_join_Cons: "str_join sep (x # xs) = x @ concat (map (\<lambda>y. sep @ y) xs)"
  by (induction xs arbitrary: x) simp_all

text \<open>
  C5. Without a principal, \<open>get-my-profile\<close> returns the result flagged as an error
  whose only content is the authentication-required message, with no structured
  content. With a principal it returns a result that is not flagged, whose structured
  content holds the subject, the client id, the scopes and the claims, and whose text
  gives the subject, the client id, the scopes separated by a comma and a space (or
  \<open>none\<close>) and a count: decimal digits whose value is the number of keys of the
  principal's claims.
\<close>

theorem get_my_profile_result:
  "(get_access_token e = Inr None \<longrightarrow>
      call_tool e ''get-my-profile'' arguments =
        (Inr \<lparr>content = [Text ''Authentication required. Please connect your account first.''],
              structuredContent = None, isError = True, meta = None\<rparr>, []))
   \<and> (\<forall>t. get_access_token e = Inr (Some t) \<longrightarrow>
        (\<exists>r sc shown. call_tool e ''get-my-profile'' arguments = (Inr r, [])
           \<and> \<not> isError r
           \<and> structuredContent r = Some sc
           \<and> map_of sc ''user_id'' = Some (PStr (subject t))
           \<and> map_of sc ''client_id'' = Some (PStr (client_id t))
           \<and> map_of sc ''scopes'' = Some (PList (map PStr (scopes t)))
           \<and> map_of sc ''jwt_claims'' = Some (PDict (claims t))
           \<and> content r =
               [Text (''Profile Information:'' @ newline @
                      ''- User ID: '' @ subject t @ newline @
                      ''- Client ID: '' @ client_id t @ newline @
                      ''- Scopes: '' @
                        (case scopes t of
                           [] \<Rightarrow> ''none''
                         | x # xs \<Rightarrow> x @ concat (map (\<lambda>y. '', '' @ y) xs)) @ newline @
                      ''- JWT Claims: '' @ shown @ '' claims present'')]
           \<and> shown \<noteq> []
           \<and> set shown \<subseteq> set ''0123456789''
           \<and> decimal_value shown = card (dom (map_of (claims t)))))"
proof (intro conjI allI impI)
  assume "get_access_token e = Inr None"
  then show "call_tool e ''get-my-profile'' arguments =
        (Inr \<lparr>content = [Text ''Authentication required. Please connect your account first.''],
              structuredContent = None, isError = True, meta = None\<rparr>, [])"
    by (simp add: call_tool_def handle_get_my_profile_def)
next
  fix t
  assume t: "get_access_token e = Inr (Some t)"
  let ?r = "handle_get_my_profile e"
  let ?shown = "str_nat (dict_len (claims t))"
  have r: "?r = \<lparr>content = [Text (profile_text t)],
           structuredContent = Some (profile_data t), isError = False, meta = None\<rparr>"
    using t by (simp add: handle_get_my_profile_def)
  have joined: "(if scopes t \<noteq> [] then str_join '', '' (scopes t) else ''none'') =
      (case scopes t of [] \<Rightarrow> ''none'' | x # xs \<Rightarrow> x @ concat (map (\<lambda>y. '', '' @ y) xs))"
    by (cases "scopes t") (simp_all add: str_join_Cons del: append.simps)
  show "\<exists>r sc shown. call_tool e ''get-my-profile'' arguments = (Inr r, [])
           \<and> \<not> isError r
           \<and> structuredContent r = Some sc
           \<and> map_of sc ''user_id'' = Some (PStr (subject t))
           \<and> map_of sc ''client_id'' = Some (PStr (client_id t))
           \<and> map_of sc ''scopes'' = Some (PList (map PStr (scopes t)))
           \<and> map_of sc ''jwt_claims'' = Some (PDict (claims t))
           \<and> content r =
               [Text (''Profile Information:'' @ newline @
                      ''- User ID: '' @ subject t @ newline @
                      ''- Client ID: '' @ client_id t @ newline @
                      ''- Scopes: '' @
                        (case scopes t of
                           [] \<Rightarrow> ''none''
                         | x # xs \<Rightarrow> x @ concat (map (\<lambda>y. '', '' @ y) xs)) @ newline @
                      ''- JWT Claims: '' @ shown @ '' claims present'')]
           \<and> shown \<noteq> []
           \<and> set shown \<subseteq> set ''0123456789''
           \<and> decimal_value shown = card (dom (map_of (claims t)))"
  proof (intro exI [of _ ?r] exI [of _ "profile_data t"] exI [of _ ?shown] conjI)
    show "call_tool e ''get-my-profile'' arguments = (Inr ?r, [])"
      by (simp add: call_tool_def)
    show "\<not> isError ?r" and "structuredContent ?r = Some (profile_data t)"
      by (simp_all add: r)
    show "map_of (profile_data t) ''user_id'' = Some (PStr (subject t))"
      and "map_of (profile_data t) ''client_id'' = Some (PStr (client_id t))"
      and "map_of (profile_data t) ''scopes'' = Some (PList (map PStr (scopes t)))"
      and "map_of (profile_data t) ''jwt_claims'' = Some (PDict (claims t))"
      by (simp_all add: profile_data_def)
    show "content ?r =
               [Text (''Profile Information:'' @ newline @
                      ''- User ID: '' @ subject t @ newline @
                      ''- Client ID: '' @ client_id t @ newline @
                      ''- Scopes: '' @
                        (case scopes t of
                           [] \<Rightarrow> ''none''
                         | x # xs \<Rightarrow> x @ concat (map (\<lambda>y. '', '' @ y) xs)) @ newline @
                      ''- JWT Claims: '' @ ?shown @ '' claims present'')]"
      unfolding r joined [symmetric] by (simp add: profile_text_def)
    show "?shown \<noteq> []" and "set ?shown \<subseteq> set ''0123456789''"
      using str_nat_digits [of "dict_len (claims t)"] by simp_all
    show "decimal_value ?shown = card (dom (map_of (claims t)))"
      by (simp add: decimal_value_str_nat dict_len_dom)
  qed
qed

theorem get_my_profile_result_witness:
  "get_access_token (sample_env\<lparr>get_access_token := Inr None\<rparr>) = Inr None
   \<and> call_tool (sample_env\<lparr>get_access_token := Inr None\<rparr>) ''get-my-profile'' (Some []) =
        (Inr \<lparr>content = [Text ''Authentication required. Please connect your account first.''],
              structuredContent = None, isError = True, meta = None\<rparr>, [])
   \<and> get_access_token sample_env = Inr (Some sample_token)
   \<and> card (dom (map_of (claims sample_token))) = 5
   \<and> (\<exists>r sc shown. call_tool sample_env ''get-my-profile'' (Some []) = (Inr r, [])
         \<and> \<not> isError r
         \<and> structuredContent r = Some sc
         \<and> map_of sc ''user_id'' = Some (PStr ''user-1'')
         \<and> map_of sc ''client_id'' = Some (PStr ''client-1'')
         \<and> map_of sc ''scopes'' = Some (PList [PStr ''openid'', PStr ''profile''])
         \<and> map_of sc ''jwt_claims'' = Some (PDict sample_claims)
         \<and> content r =
             [Text (''Profile Information:'' @ newline @
                    ''- User ID: user-1'' @ newline @
                    ''- Client ID: client-1'' @ newline @
                    ''- Scopes: openid, profile'' @ newline @
                    ''- JWT Claims: '' @ shown @ '' claims present'')]
         \<and> decimal_value shown = 5)
   \<and> content (handle_get_my_profile sample_env) =
         [Text (''Profile Information:'' @ newline @
                ''- User ID: user-1'' @ newline @
                ''- Client ID: client-1'' @ newline @
                ''- Scopes: openid, profile'' @ newline @
                ''- JWT Claims: 5 claims present'')]"
proof -
  have tok: "get_access_token sample_env = Inr (Some sample_token)"
    by (simp add: sample_env_def)
  have five: "card (dom (map_of (claims sample_token))) = 5"
    unfolding dict_len_dom [symmetric]
    by (simp add: sample_token_def sample_claims_def dict_len_def)
  have none: "call_tool (sample_env\<lparr>get_access_token := Inr None\<rparr>) ''get-my-profile'' (Some []) =
        (Inr \<lparr>content = [Text ''Authentication required. Please connect your account first.''],
              structuredContent = None, isError = True, meta = None\<rparr>, [])"
    using get_my_profile_result [of "sample_env\<lparr>get_access_token := Inr None\<rparr>" "Some []"]
    by (simp add: sample_env_def)
  have fields: "subject sample_token = ''user-1''" "client_id sample_token = ''client-1''"
    "scopes sample_token = [''openid'', ''profile'']" "claims sample_token = sample_claims"
    by (simp_all add: sample_token_def)
  from get_my_profile_result [of sample_env "Some []"] tok
  obtain r sc shown where
    a: "call_tool sample_env ''get-my-profile'' (Some []) = (Inr r, [])"
      "\<not> isError r" "structuredContent r = Some sc"
    and b: "map_of sc ''user_id'' = Some (PStr (subject sample_token))"
      "map_of sc ''client_id'' = Some (PStr (client_id sample_token))"
      "map_of sc ''scopes'' = Some (PList (map PStr (scopes sample_token)))"
      "map_of sc ''jwt_claims'' = Some (PDict (claims sample_token))"
    and c: "content r =
               [Text (''Profile Information:'' @ newline @
                      ''- User ID: '' @ subject sample_token @ newline @
                      ''- Client ID: '' @ client_id sample_token @ newline @
                      ''- Scopes: '' @
                        (case scopes sample_token of
                           [] \<Rightarrow> ''none''
                         | x # xs \<Rightarrow> x @ concat (map (\<lambda>y. '', '' @ y) xs)) @ newline @
                      ''- JWT Claims: '' @ shown @ '' claims present'')]"
    and d: "decimal_value shown = card (dom (map_of (claims sample_token)))"
    by blast
  have shown_text: "content (handle_get_my_profile sample_env) =
         [Text (''Profile Information:'' @ newline @
                ''- User ID: user-1'' @ newline @
                ''- Client ID: client-1'' @ newline @
                ''- Scopes: openid, profile'' @ newline @
                ''- JWT Claims: 5 claims present'')]"
    by (simp add: handle_get_my_profile_def tok profile_text_def fields sample_claims_def
        dict_len_def str_nat.simps digit_char_def)
  have "\<exists>r sc shown. call_tool sample_env ''get-my-profile'' (Some []) = (Inr r, [])
         \<and> \<not> isError r
         \<and> structuredContent r = Some sc
         \<and> map_of sc ''user_id'' = Some (PStr ''user-1'')
         \<and> map_of sc ''client_id'' = Some (PStr ''client-1'')
         \<and> map_of sc ''scopes'' = Some (PList [PStr ''openid'', PStr ''profile''])
         \<and> map_of sc ''jwt_claims'' = Some (PDict sample_claims)
         \<and> content r =
             [Text (''Profile Information:'' @ newline @
                    ''- User ID: user-1'' @ newline @
                    ''- Client ID: client-1'' @ newline @
                    ''- Scopes: openid, profile'' @ newline @
                    ''- JWT Claims: '' @ shown @ '' claims present'')]
         \<and> decimal_value shown = 5"
  proof (intro exI [of _ r] exI [of _ sc] exI [of _ shown] conjI)
    show "call_tool sample_env ''get-my-profile'' (Some []) = (Inr r, [])" by (rule a(1))
    show "\<not> isError r" by (rule a(2))
    show "structuredContent r = Some sc" by (rule a(3))
    show "map_of sc ''user_id'' = Some (PStr ''user-1'')" using b(1) by (simp add: fields)
    show "map_of sc ''client_id'' = Some (PStr ''client-1'')" using b(2) by (simp add: fields)
    show "map_of sc ''scopes'' = Some (PList [PStr ''openid'', PStr ''profile''])"
      using b(3) by (simp add: fields)
    show "map_of sc ''jwt_claims'' = Some (PDict sample_claims)" using b(4) by (simp add: fields)
    show "content r =
             [Text (''Profile Information:'' @ newline @
                    ''- User ID: user-1'' @ newline @
                    ''- Client ID: client-1'' @ newline @
                    ''- Scopes: openid, profile'' @ newline @
                    ''- JWT Claims: '' @ shown @ '' claims present'')]"
      using c by (simp add: fields)
    show "decimal_value shown = 5" using d five by simp
  qed
  with none tok five shown_text show ?thesis
    by (simp add: sample_env_def)
qed

section \<open>Properties of \<^verbatim>\<open>save_profile\<close>\<close>

lemma save_profile_no_token:
  assumes "\<not> truthy (dict_get d ''session_token'' PNone)"
  shows "save_profile e (Inr (PDict d)) =
     (\<lparr>success = False, message = Text ''session_token required'',
       profile = None, status_code = 400\<rparr>, [])"
  using assms by (simp add: save_profile_def save_profile_try_def)

lemma save_profile_no_twitter:
  assumes "truthy (dict_get d ''session_token'' PNone)"
    "verify_stytch_session_token e (dict_get d ''session_token'' PNone) = Inr user_data"
    "extract_twitter_profile e user_data = Inr tp" "\<not> truthy tp"
  shows "save_profile e (Inr (PDict d)) =
     (\<lparr>success = False, message = Text ''No Twitter profile found'',
       profile = None, status_code = 400\<rparr>, [])"
  using assms by (simp add: save_profile_def save_profile_try_def)

text \<open>
  The response once the store is reached, by the outcome of each store call.
\<close>

lemma save_profile_store:
  assumes "truthy (dict_get d ''session_token'' PNone)"
    "verify_stytch_session_token e (dict_get d ''session_token'' PNone) = Inr user_data"
    "extract_twitter_profile e user_data = Inr tp" "truthy tp"
  shows "save_profile e (Inr (PDict d)) =
     (case get_db e of
        Inl err \<Rightarrow>
          (\<lparr>success = False, message = ErrText ''Error: '' err,
            profile = None, status_code = 500\<rparr>, [])
      | Inr db \<Rightarrow>
          (case db_close e of
             Some err \<Rightarrow>
               (\<lparr>success = False, message = ErrText ''Error: '' err,
                 profile = None, status_code = 500\<rparr>, [GetDb, Close])
           | None \<Rightarrow>
               (case get_or_create_profile e tp of
                  Inl err \<Rightarrow>
                    (\<lparr>success = False, message = ErrText ''Error: '' err,
                      profile = None, status_code = 500\<rparr>, [GetDb, Close])
                | Inr None \<Rightarrow>
                    (\<lparr>success = False, message = Text ''Failed to save profile'',
                      profile = None, status_code = 500\<rparr>, [GetDb, Close])
                | Inr (Some p) \<Rightarrow>
                    (\<lparr>success = True, message = Text ''Profile saved successfully'',
                      profile = Some [(''twitter_handle'', opt_str (twitter_handle p)),
                                      (''display_name'', opt_str (display_name p))],
                      status_code = 200\<rparr>, [GetDb, Close]))))"
  using assms
  by (simp add: save_profile_def save_profile_try_def store_profile_def Let_def
      split: sum.splits option.splits)

lemma save_profile_store_fails:
  assumes "truthy (dict_get d ''session_token'' PNone)"
    "verify_stytch_session_token e (dict_get d ''session_token'' PNone) = Inr user_data"
    "extract_twitter_profile e user_data = Inr tp" "truthy tp"
    "(\<exists>err. get_db e = Inl err) \<or> (\<exists>err. get_or_create_profile e tp = Inl err)
       \<or> get_or_create_profile e tp = Inr None \<or> (\<exists>err. db_close e = Some err)"
  shows "status_code (fst (save_profile e (Inr (PDict d)))) = 500
     \<and> \<not> success (fst (save_profile e (Inr (PDict d))))"
  using assms(5) unfolding save_profile_store [OF assms(1-4)]
  by (auto split: sum.splits option.splits)

lemma save_profile_store_ok:
  assumes "truthy (dict_get d ''session_token'' PNone)"
    "verify_stytch_session_token e (dict_get d ''session_token'' PNone) = Inr user_data"
    "extract_twitter_profile e user_data = Inr tp" "truthy tp"
    "get_db e = Inr ()" "get_or_create_profile e tp = Inr (Some p)" "db_close e = None"
  shows "save_profile e (Inr (PDict d)) =
        (\<lparr>success = True, message = Text ''Profile saved successfully'',
          profile = Some [(''twitter_handle'', opt_str (twitter_handle p)),
                          (''display_name'', opt_str (display_name p))],
          status_code = 200\<rparr>, [GetDb, Close])"
  using assms(5-7) unfolding save_profile_store [OF assms(1-4)] by simp

text \<open>
  A body that is not a JSON object (the parser raised, or it gave a list, a string, a
  number, \<open>null\<close>) ends in the \<^verbatim>\<open>except\<close> clause before any connection is acquired.
\<close>

lemma save_profile_non_object:
  assumes "\<forall>d. body \<noteq> Inr (PDict d)"
  shows "status_code (fst (save_profile e body)) = 500
     \<and> \<not> success (fst (save_profile e body))
     \<and> snd (save_profile e body) = []"
  using assms
  by (auto simp: save_profile_def save_profile_try_def split: sum.splits pyval.splits)

text \<open>
  C8. For a request whose body parses to a JSON object: without a \<open>session_token\<close> (or
  with an empty one) the response has status 400 and \<open>success\<close> false; so it has when
  the token is exchanged and no Twitter profile is extracted from the user data. When
  the store fails (acquiring the connection, saving, returning no profile, or closing)
  the response has status 500 and \<open>success\<close> false. When every step succeeds the
  response has \<open>success\<close> true and carries the saved profile's handle and display name.
  A body that does not parse to a JSON object, which has no \<open>session_token\<close> either,
  gets status 500 and \<open>success\<close> false.
\<close>

theorem save_profile_status:
  "(map_of d ''session_token'' = None \<longrightarrow>
      status_code (fst (save_profile e (Inr (PDict d)))) = 400
      \<and> \<not> success (fst (save_profile e (Inr (PDict d)))))
   \<and> (\<forall>tok. map_of d ''session_token'' = Some tok \<and> \<not> truthy tok \<longrightarrow>
        status_code (fst (save_profile e (Inr (PDict d)))) = 400
        \<and> \<not> success (fst (save_profile e (Inr (PDict d)))))
   \<and> (\<forall>tok user_data tp.
        map_of d ''session_token'' = Some tok \<and> truthy tok
        \<and> verify_stytch_session_token e tok = Inr user_data
        \<and> extract_twitter_profile e user_data = Inr tp
      \<longrightarrow>
        (\<not> truthy tp \<longrightarrow>
           status_code (fst (save_profile e (Inr (PDict d)))) = 400
           \<and> \<not> success (fst (save_profile e (Inr (PDict d)))))
        \<and> (truthy tp \<and> ((\<exists>err. get_db e = Inl err)
                         \<or> (\<exists>err. get_or_create_profile e tp = Inl err)
                         \<or> get_or_create_profile e tp = Inr None
                         \<or> (\<exists>err. db_close e = Some err)) \<longrightarrow>
           status_code (fst (save_profile e (Inr (PDict d)))) = 500
           \<and> \<not> success (fst (save_profile e (Inr (PDict d)))))
        \<and> (\<forall>p. truthy tp \<and> get_db e = Inr () \<and> get_or_create_profile e tp = Inr (Some p)
                \<and> db_close e = None \<longrightarrow>
             success (fst (save_profile e (Inr (PDict d))))
             \<and> status_code (fst (save_profile e (Inr (PDict d)))) = 200
             \<and> profile (fst (save_profile e (Inr (PDict d)))) =
                 Some [(''twitter_handle'', opt_str (twitter_handle p)),
                       (''display_name'', opt_str (display_name p))]))
   \<and> (\<forall>body. (\<forall>d'. body \<noteq> Inr (PDict d')) \<longrightarrow>
        status_code (fst (save_profile e body)) = 500
        \<and> \<not> success (fst (save_profile e body)))"
proof (intro conjI allI impI)
  assume "map_of d ''session_token'' = None"
  then have "\<not> truthy (dict_get d ''session_token'' PNone)" by (simp add: dict_get_def)
  from save_profile_no_token [OF this, of e]
  show "status_code (fst (save_profile e (Inr (PDict d)))) = 400"
    and "\<not> success (fst (save_profile e (Inr (PDict d))))" by simp_all
next
  fix tok
  assume "map_of d ''session_token'' = Some tok \<and> \<not> truthy tok"
  then have "\<not> truthy (dict_get d ''session_token'' PNone)" by (simp add: dict_get_def)
  from save_profile_no_token [OF this, of e]
  show "status_code (fst (save_profile e (Inr (PDict d)))) = 400"
    and "\<not> success (fst (save_profile e (Inr (PDict d))))" by simp_all
next
  fix tok user_data tp
  assume a: "map_of d ''session_token'' = Some tok \<and> truthy tok
        \<and> verify_stytch_session_token e tok = Inr user_data
        \<and> extract_twitter_profile e user_data = Inr tp"
  then have g: "dict_get d ''session_token'' PNone = tok" by (simp add: dict_get_def)
  from a g have reach: "truthy (dict_get d ''session_token'' PNone)"
    "verify_stytch_session_token e (dict_get d ''session_token'' PNone) = Inr user_data"
    "extract_twitter_profile e user_data = Inr tp" by simp_all
  {
    assume "\<not> truthy tp"
    from save_profile_no_twitter [OF reach this]
    show "status_code (fst (save_profile e (Inr (PDict d)))) = 400"
      and "\<not> success (fst (save_profile e (Inr (PDict d))))" by simp_all
  }
  {
    assume f: "truthy tp \<and> ((\<exists>err. get_db e = Inl err)
                         \<or> (\<exists>err. get_or_create_profile e tp = Inl err)
                         \<or> get_or_create_profile e tp = Inr None
                         \<or> (\<exists>err. db_close e = Some err))"
    then have "truthy tp" and "(\<exists>err. get_db e = Inl err)
                         \<or> (\<exists>err. get_or_create_profile e tp = Inl err)
                         \<or> get_or_create_profile e tp = Inr None
                         \<or> (\<exists>err. db_close e = Some err)" by simp_all
    from save_profile_store_fails [OF reach this]
    show "status_code (fst (save_profile e (Inr (PDict d)))) = 500"
      and "\<not> success (fst (save_profile e (Inr (PDict d))))" by simp_all
  }
  {
    fix p
    assume "truthy tp \<and> get_db e = Inr () \<and> get_or_create_profile e tp = Inr (Some p)
                \<and> db_close e = None"
    then have "truthy tp" "get_db e = Inr ()" "get_or_create_profile e tp = Inr (Some p)"
      "db_close e = None" by simp_all
    from save_profile_store_ok [OF reach this]
    show "success (fst (save_profile e (Inr (PDict d))))"
      and "status_code (fst (save_profile e (Inr (PDict d)))) = 200"
      and "profile (fst (save_profile e (Inr (PDict d)))) =
                 Some [(''twitter_handle'', opt_str (twitter_handle p)),
                       (''display_name'', opt_str (display_name p))]"
      by simp_all
  }
next
  fix body :: "exn + pyval"
  assume "\<forall>d'. body \<noteq> Inr (PDict d')"
  from save_profile_non_object [OF this, of e]
  show "status_code (fst (save_profile e body)) = 500"
    and "\<not> success (fst (save_profile e body))" by simp_all
qed

text \<open>
  The claim as first stated, 400 for every body without a \<open>session_token\<close>, fails on the
  JSON body \<open>[]\<close> and on a body the parser rejects: both get 500.
\<close>

theorem save_profile_non_object_counterexample:
  "status_code (fst (save_profile sample_env (Inr (PList [])))) = 500
   \<and> status_code (fst (save_profile sample_env (Inr (PList [])))) \<noteq> 400
   \<and> status_code (fst (save_profile sample_env (Inl (Raised ''Expecting value'')))) = 500
   \<and> status_code (fst (save_profile sample_env (Inl (Raised ''Expecting value'')))) \<noteq> 400"
  by (simp add: save_profile_def save_profile_try_def)

theorem save_profile_status_witness:
  "map_of [(''other'', PInt 1)] ''session_token'' = None
   \<and> status_code (fst (save_profile sample_env (Inr (PDict [(''other'', PInt 1)])))) = 400
   \<and> \<not> success (fst (save_profile sample_env (Inr (PDict [(''other'', PInt 1)]))))
   \<and> status_code (fst (save_profile sample_env (Inr (PDict [(''session_token'', PStr [])])))) = 400
   \<and> status_code (fst (save_profile (sample_env\<lparr>extract_twitter_profile := \<lambda>user_data. Inr PNone\<rparr>)
        (Inr (PDict [(''session_token'', PStr ''session-1'')])))) = 400
   \<and> \<not> success (fst (save_profile (sample_env\<lparr>extract_twitter_profile := \<lambda>user_data. Inr PNone\<rparr>)
        (Inr (PDict [(''session_token'', PStr ''session-1'')]))))
   \<and> status_code (fst (save_profile (sample_env\<lparr>get_or_create_profile := \<lambda>tp. Inl (Raised ''write failed'')\<rparr>)
        (Inr (PDict [(''session_token'', PStr ''session-1'')])))) = 500
   \<and> \<not> success (fst (save_profile (sample_env\<lparr>get_or_create_profile := \<lambda>tp. Inl (Raised ''write failed'')\<rparr>)
        (Inr (PDict [(''session_token'', PStr ''session-1'')]))))
   \<and> success (fst (save_profile sample_env (Inr (PDict [(''session_token'', PStr ''session-1'')]))))
   \<and> status_code (fst (save_profile sample_env (Inr (PDict [(''session_token'', PStr ''session-1'')])))) = 200
   \<and> profile (fst (save_profile sample_env (Inr (PDict [(''session_token'', PStr ''session-1'')])))) =
        Some [(''twitter_handle'', PStr ''alice''), (''display_name'', PStr [])]
   \<and> status_code (fst (save_profile sample_env (Inr (PList [])))) = 500
   \<and> \<not> success (fst (save_profile sample_env (Inr (PList []))))"
proof -
  have object: "map_of [(''other'', PInt 1)] ''session_token'' = None
   \<and> status_code (fst (save_profile sample_env (Inr (PDict [(''other'', PInt 1)])))) = 400
   \<and> \<not> success (fst (save_profile sample_env (Inr (PDict [(''other'', PInt 1)]))))
   \<and> status_code (fst (save_profile sample_env (Inr (PDict [(''session_token'', PStr [])])))) = 400
   \<and> status_code (fst (save_profile (sample_env\<lparr>extract_twitter_profile := \<lambda>user_data. Inr PNone\<rparr>)
        (Inr (PDict [(''session_token'', PStr ''session-1'')])))) = 400
   \<and> \<not> success (fst (save_profile (sample_env\<lparr>extract_twitter_profile := \<lambda>user_data. Inr PNone\<rparr>)
        (Inr (PDict [(''session_token'', PStr ''session-1'')]))))
   \<and> status_code (fst (save_profile (sample_env\<lparr>get_or_create_profile := \<lambda>tp. Inl (Raised ''write failed'')\<rparr>)
        (Inr (PDict [(''session_token'', PStr ''session-1'')])))) = 500
   \<and> \<not> success (fst (save_profile (sample_env\<lparr>get_or_create_profile := \<lambda>tp. Inl (Raised ''write failed'')\<rparr>)
        (Inr (PDict [(''session_token'', PStr ''session-1'')]))))
   \<and> success (fst (save_profile sample_env (Inr (PDict [(''session_token'', PStr ''session-1'')]))))
   \<and> status_code (fst (save_profile sample_env (Inr (PDict [(''session_token'', PStr ''session-1'')])))) = 200
   \<and> profile (fst (save_profile sample_env (Inr (PDict [(''session_token'', PStr ''session-1'')])))) =
        Some [(''twitter_handle'', PStr ''alice''), (''display_name'', PStr [])]"
  using
      save_profile_status [of "[(''other'', PInt 1)]" sample_env]
      save_profile_status [of "[(''session_token'', PStr [])]" sample_env]
      save_profile_status [of "[(''session_token'', PStr ''session-1'')]"
        "sample_env\<lparr>extract_twitter_profile := \<lambda>user_data. Inr PNone\<rparr>"]
      save_profile_status [of "[(''session_token'', PStr ''session-1'')]"
        "sample_env\<lparr>get_or_create_profile := \<lambda>tp. Inl (Raised ''write failed'')\<rparr>"]
      save_profile_status [of "[(''session_token'', PStr ''session-1'')]" sample_env]
    by (simp add: sample_env_def sample_profile_def)
  have "\<forall>body. (\<forall>d'. body \<noteq> Inr (PDict d')) \<longrightarrow>
        status_code (fst (save_profile sample_env body)) = 500
        \<and> \<not> success (fst (save_profile sample_env body))"
    by (rule save_profile_status [of "[]" sample_env, THEN conjunct2, THEN conjunct2,
          THEN conjunct2])
  from this [rule_format, of "Inr (PList [])"]
  have other: "status_code (fst (save_profile sample_env (Inr (PList [])))) = 500
     \<and> \<not> success (fst (save_profile sample_env (Inr (PList []))))"
    by simp
  from object other show ?thesis by simp
qed

section \<open>The database connection\<close>

lemma get_twitter_data_trace:
  "snd (get_twitter_data e) = [] \<or> snd (get_twitter_data e) = [GetDb, Close]"
  by (auto simp: get_twitter_data_def twitter_data_try_def load_profile_def Let_def
      split: sum.splits option.splits prod.splits if_splits)

lemma get_twitter_data_trace_acquired:
  assumes "get_access_token e = Inr (Some t)" "subject t \<noteq> []" "get_db e = Inr ()"
  shows "snd (get_twitter_data e) = [GetDb, Close]"
  using assms
  by (auto simp: get_twitter_data_def twitter_data_try_def load_profile_def Let_def
      split: sum.splits option.splits prod.splits if_splits)

lemma save_profile_trace:
  "snd (save_profile e body) = [] \<or> snd (save_profile e body) = [GetDb, Close]"
  by (auto simp: save_profile_def save_profile_try_def Let_def
      split: sum.splits option.splits prod.splits if_splits pyval.splits)

lemma save_profile_trace_acquired:
  assumes "truthy (dict_get d ''session_token'' PNone)"
    "verify_stytch_session_token e (dict_get d ''session_token'' PNone) = Inr user_data"
    "extract_twitter_profile e user_data = Inr tp" "truthy tp" "get_db e = Inr ()"
  shows "snd (save_profile e (Inr (PDict d))) = [GetDb, Close]"
  using assms(5) unfolding save_profile_store [OF assms(1-4)]
  by (auto split: sum.splits option.splits)

text \<open>
  C9. In \<open>create-gradient-tweet\<close> and in \<open>save_profile\<close> the trace of the connection
  is empty (none was acquired: the call ended before \<open>get_db\<close> returned one) or it is
  an acquisition followed by \<open>close\<close>; and once \<open>get_db\<close> has returned a connection
  the trace ends with \<open>close\<close> whatever the store access does, an exception included.
\<close>

theorem connection_released:
  "(snd (handle_create_gradient_tweet e arguments) = []
      \<or> snd (handle_create_gradient_tweet e arguments) = [GetDb, Close])
   \<and> (snd (save_profile e body) = [] \<or> snd (save_profile e body) = [GetDb, Close])
   \<and> (\<forall>sel t. select_gradient (GRADIENTS e) arguments = Inr sel
         \<and> get_access_token e = Inr (Some t) \<and> subject t \<noteq> [] \<and> get_db e = Inr ()
       \<longrightarrow> snd (handle_create_gradient_tweet e arguments) = [GetDb, Close])
   \<and> (\<forall>d user_data tp. body = Inr (PDict d)
         \<and> truthy (dict_get d ''session_token'' PNone)
         \<and> verify_stytch_session_token e (dict_get d ''session_token'' PNone) = Inr user_data
         \<and> extract_twitter_profile e user_data = Inr tp \<and> truthy tp \<and> get_db e = Inr ()
       \<longrightarrow> snd (save_profile e body) = [GetDb, Close])"
proof (intro conjI allI impI)
  show "snd (handle_create_gradient_tweet e arguments) = []
      \<or> snd (handle_create_gradient_tweet e arguments) = [GetDb, Close]"
    using get_twitter_data_trace [of e]
    by (auto simp: handle_create_trace split: sum.splits)
next
  show "snd (save_profile e body) = [] \<or> snd (save_profile e body) = [GetDb, Close]"
    by (rule save_profile_trace)
next
  fix sel t
  assume "select_gradient (GRADIENTS e) arguments = Inr sel
         \<and> get_access_token e = Inr (Some t) \<and> subject t \<noteq> [] \<and> get_db e = Inr ()"
  then show "snd (handle_create_gradient_tweet e arguments) = [GetDb, Close]"
    by (simp add: handle_create_trace get_twitter_data_trace_acquired)
next
  fix d user_data tp
  assume "body = Inr (PDict d)
         \<and> truthy (dict_get d ''session_token'' PNone)
         \<and> verify_stytch_session_token e (dict_get d ''session_token'' PNone) = Inr user_data
         \<and> extract_twitter_profile e user_data = Inr tp \<and> truthy tp \<and> get_db e = Inr ()"
  then show "snd (save_profile e body) = [GetDb, Close]"
    by (simp add: save_profile_trace_acquired)
qed

theorem connection_released_witness:
  "select_gradient (GRADIENTS sample_env) (Some [(''tweetContent'', PStr ''hi'')])
      = Inr (PStr ''hi'', PInt 0, \<lparr>name = ''Sunset''\<rparr>)
   \<and> get_profile_by_user_id
        (sample_env\<lparr>get_profile_by_user_id := \<lambda>uid. Inl (Raised ''database is down'')\<rparr>) ''user-1''
      = Inl (Raised ''database is down'')
   \<and> snd (handle_create_gradient_tweet
        (sample_env\<lparr>get_profile_by_user_id := \<lambda>uid. Inl (Raised ''database is down'')\<rparr>)
        (Some [(''tweetContent'', PStr ''hi'')])) = [GetDb, Close]
   \<and> get_or_create_profile
        (sample_env\<lparr>get_or_create_profile := \<lambda>tp. Inl (Raised ''write failed'')\<rparr>) PNone
      = Inl (Raised ''write failed'')
   \<and> snd (save_profile
        (sample_env\<lparr>get_or_create_profile := \<lambda>tp. Inl (Raised ''write failed'')\<rparr>)
        (Inr (PDict [(''session_token'', PStr ''session-1'')]))) = [GetDb, Close]
   \<and> snd (save_profile sample_env (Inr (PDict []))) = []"
  using
    connection_released [of "sample_env\<lparr>get_profile_by_user_id := \<lambda>uid. Inl (Raised ''database is down'')\<rparr>"
      "Some [(''tweetContent'', PStr ''hi'')]" "Inr (PDict [])"]
    connection_released [of "sample_env\<lparr>get_or_create_profile := \<lambda>tp. Inl (Raised ''write failed'')\<rparr>"
      "Some [(''tweetContent'', PStr ''hi'')]" "Inr (PDict [(''session_token'', PStr ''session-1'')])"]
  by (simp add: sample_env_def sample_token_def select_gradient_def dict_get_def in_range_def
      index_int_def save_profile_def save_profile_try_def)

section \<open>The dispatcher and exceptions\<close>

text \<open>
  Where the dispatcher does return a result: for every tool but
  \<open>create-gradient-tweet\<close>, and for that tool once the gradient is selected. An unknown
  tool gives the flagged result with its message.
\<close>

lemma call_tool_structured:
  assumes "tool \<noteq> ''create-gradient-tweet''
     \<or> (\<exists>sel. select_gradient (GRADIENTS e) arguments = Inr sel)"
  shows "\<exists>r. fst (call_tool e tool arguments) = Inr r"
proof (cases "tool = ''create-gradient-tweet''")
  case True
  with assms obtain tc gi g
    where "select_gradient (GRADIENTS e) arguments = Inr (tc, gi, g)" by auto
  from handle_create_ok [OF this] True show ?thesis by (auto simp: call_tool_def)
next
  case False
  then show ?thesis by (simp add: call_tool_def)
qed

lemma call_tool_unknown:
  assumes "tool \<noteq> ''get-my-profile''" "tool \<noteq> ''create-gradient-tweet''"
  shows "call_tool e tool arguments =
     (Inr \<lparr>content = [Text (''Unknown tool: '' @ tool)],
           structuredContent = None, isError = True, meta = None\<rparr>, [])"
  using assms by (simp add: call_tool_def)

text \<open>
  C2. The dispatcher lets an exception escape: a call of \<open>create-gradient-tweet\<close>
  whose \<open>gradientIndex\<close> is the string \<open>3\<close> ends in the \<open>TypeError\<close> of the range
  check, and one whose index is the float \<open>0.0\<close> in an exception of the palette access,
  in every environment; neither returns a result.
\<close>

theorem call_tool_bad_index_raises:
  "call_tool e ''create-gradient-tweet''
      (Some [(''tweetContent'', PStr ''hi''), (''gradientIndex'', PStr ''3'')])
    = (Inl TypeError, [])
   \<and> (\<exists>err. call_tool e ''create-gradient-tweet''
          (Some [(''tweetContent'', PStr ''hi''), (''gradientIndex'', PFloat (Finite 0))])
        = (Inl err, []))"
  by (simp add: call_tool_def handle_create_gradient_tweet_def select_gradient_def dict_get_def
      in_range_def index_int_def)

end
